theory Spec2Isabelle
  imports Main
begin

section \<open>The session-and-extraction engine of \<^verbatim>\<open>app/scraper.py\<close>\<close>

text \<open>
  The class \<^verbatim>\<open>IvaSmsScraper\<close> drives a Selenium browser session: it logs in, dismisses a
  pop-up, navigates to the feed of received messages, extracts the message column of the
  feed table and reports the messages it has not reported before.

  The browser is outside the program. It is modelled as a capability: a record of
  operations over a world \<open>'w\<close> (browser and portal together) and element handles \<open>'e\<close>.
  Every operation returns either a value or the exception Selenium raises, with the new
  world. The engine's methods are functions over this record, so every theorem that
  quantifies over the capability holds for every behaviour of the browser.
\<close>

subsection \<open>Exceptions\<close>

text \<open>
  The classes the handlers of the source distinguish. In Selenium \<^verbatim>\<open>TimeoutException\<close> and
  \<^verbatim>\<open>NoSuchElementException\<close> are subclasses of \<^verbatim>\<open>WebDriverException\<close>; the constructor
  \<open>WebDriverException\<close> stands for every other driver fault (a stale element, a lost
  session). \<open>AttributeError\<close> is what a method call on \<^verbatim>\<open>self.driver = None\<close> raises, and
  \<open>Exception\<close> is any other exception below Python's \<^verbatim>\<open>Exception\<close>.
\<close>

datatype exn_class =
  TimeoutException | NoSuchElementException | WebDriverException | AttributeError | Exception

datatype exn = Exn (cls: exn_class) (str: string)

fun issubclass :: "exn_class \<Rightarrow> exn_class \<Rightarrow> bool" where
  "issubclass c Exception = True"
| "issubclass TimeoutException WebDriverException = True"
| "issubclass NoSuchElementException WebDriverException = True"
| "issubclass c d = (c = d)"

fun isinstance :: "exn \<Rightarrow> exn_class list \<Rightarrow> bool" where
  "isinstance e [] = False"
| "isinstance e (c # cs) = (issubclass (cls e) c \<or> isinstance e cs)"

subsection \<open>The driver capability\<close>

type_synonym handle = nat

datatype By = NAME | XPATH | CLASS_NAME | CSS_SELECTOR | ID

type_synonym locator = "By \<times> string"

text \<open>The expected conditions of \<^verbatim>\<open>selenium.webdriver.support.expected_conditions\<close> in use.\<close>

datatype condition =
  presence_of_element_located locator
| element_to_be_clickable locator
| invisibility_of_element_located locator
| url_contains string
| url_to_be string

text \<open>
  Python's \<^verbatim>\<open>a or b\<close> is \<^verbatim>\<open>a\<close> when \<^verbatim>\<open>a\<close> is truthy and \<^verbatim>\<open>b\<close> otherwise. An expected
  condition is a function object, and a function object is truthy.
\<close>

definition truthy :: "condition \<Rightarrow> bool" where
  "truthy c = True"

definition py_or :: "condition \<Rightarrow> condition \<Rightarrow> condition" where
  "py_or a b = (if truthy a then a else b)"

text \<open>
  \<open>wait_until h t c\<close> is \<^verbatim>\<open>WebDriverWait(driver, t).until(c)\<close>; for a condition on the URL
  the element it returns is not used. \<open>quit\<close> cannot fail: the \<^verbatim>\<open>quit\<close> of Selenium's
  Chrome driver, the one the source creates, suppresses the faults of the remote end.
\<close>

record ('w, 'e) driver_capability =
  chrome :: "'w \<Rightarrow> (exn + handle) \<times> 'w"
  set_page_load_timeout :: "handle \<Rightarrow> nat \<Rightarrow> 'w \<Rightarrow> (exn + unit) \<times> 'w"
  implicitly_wait :: "handle \<Rightarrow> nat \<Rightarrow> 'w \<Rightarrow> (exn + unit) \<times> 'w"
  quit :: "handle \<Rightarrow> 'w \<Rightarrow> 'w"
  get :: "handle \<Rightarrow> string \<Rightarrow> 'w \<Rightarrow> (exn + unit) \<times> 'w"
  wait_until :: "handle \<Rightarrow> nat \<Rightarrow> condition \<Rightarrow> 'w \<Rightarrow> (exn + 'e) \<times> 'w"
  find_element :: "handle \<Rightarrow> locator \<Rightarrow> 'w \<Rightarrow> (exn + 'e) \<times> 'w"
  find_elements :: "handle \<Rightarrow> locator \<Rightarrow> 'w \<Rightarrow> (exn + 'e list) \<times> 'w"
  elem_find_element :: "'e \<Rightarrow> locator \<Rightarrow> 'w \<Rightarrow> (exn + 'e) \<times> 'w"
  elem_text :: "'e \<Rightarrow> 'w \<Rightarrow> (exn + string) \<times> 'w"
  send_keys :: "'e \<Rightarrow> string \<Rightarrow> 'w \<Rightarrow> (exn + unit) \<times> 'w"
  click :: "'e \<Rightarrow> 'w \<Rightarrow> (exn + unit) \<times> 'w"
  clear :: "'e \<Rightarrow> 'w \<Rightarrow> (exn + unit) \<times> 'w"
  sleep :: "nat \<Rightarrow> 'w \<Rightarrow> 'w"

subsection \<open>The engine's state\<close>

text \<open>
  The fields of the object, and what it has done to its surroundings: \<open>sink\<close> lists the
  messages handed to \<^verbatim>\<open>notification_callback\<close>, \<open>console\<close> the messages printed, \<open>world\<close> is
  the browser. \<open>notification_callback\<close> tells whether a callback is installed.
\<close>

record 'w scraper =
  email :: string
  password :: string
  driver :: "handle option"
  sent_otps :: "string set"
  notification_callback :: bool
  sink :: "string list"
  console :: "string list"
  world :: 'w

definition base_url :: string where
  "base_url = ''https://www.ivasms.com''"

definition login_url :: string where
  "login_url = base_url @ ''/login''"

definition otp_page_url :: string where
  "otp_page_url = base_url @ ''/portal/sms/received''"

text \<open>\<^verbatim>\<open>__init__\<close>: no driver, an empty set of sent messages.\<close>

definition init :: "string \<Rightarrow> string \<Rightarrow> bool \<Rightarrow> 'w \<Rightarrow> 'w scraper" where
  "init em pw cb w =
     \<lparr>email = em, password = pw, driver = None, sent_otps = {},
      notification_callback = cb, sink = [], console = [], world = w\<rparr>"

subsection \<open>Actions: state passing with exceptions\<close>

type_synonym ('w, 'a) action = "'w scraper \<Rightarrow> (exn + 'a) \<times> 'w scraper"

definition ret :: "'a \<Rightarrow> ('w, 'a) action" where
  "ret x s = (Inr x, s)"

definition bind :: "('w, 'a) action \<Rightarrow> ('a \<Rightarrow> ('w, 'b) action) \<Rightarrow> ('w, 'b) action" where
  "bind m f s = (case m s of (Inl e, s') \<Rightarrow> (Inl e, s') | (Inr x, s') \<Rightarrow> f x s')"

text \<open>
  \<^verbatim>\<open>try: body except C1: h1 except C2: h2\<close>: the first clause whose classes the exception
  is an instance of handles it; with no such clause the exception goes on to the caller.
\<close>

fun dispatch ::
  "(exn_class list \<times> (exn \<Rightarrow> ('w, 'a) action)) list \<Rightarrow> exn \<Rightarrow> ('w, 'a) action" where
  "dispatch [] e s = (Inl e, s)"
| "dispatch ((cs, h) # hs) e s = (if isinstance e cs then h e s else dispatch hs e s)"

definition try_except ::
  "('w, 'a) action \<Rightarrow> (exn_class list \<times> (exn \<Rightarrow> ('w, 'a) action)) list \<Rightarrow> ('w, 'a) action" where
  "try_except body hs s =
     (case body s of (Inr x, s') \<Rightarrow> (Inr x, s') | (Inl e, s') \<Rightarrow> dispatch hs e s')"

text \<open>An operation of the capability, run on the world of the state.\<close>

definition on_world :: "('w \<Rightarrow> (exn + 'a) \<times> 'w) \<Rightarrow> ('w, 'a) action" where
  "on_world f s = (case f (world s) of (r, w') \<Rightarrow> (r, s\<lparr>world := w'\<rparr>))"

text \<open>
  \<^verbatim>\<open>self.driver\<close> as the receiver of a call: on \<^verbatim>\<open>None\<close> the attribute lookup raises
  \<^verbatim>\<open>AttributeError\<close>.
\<close>

definition the_driver :: "('w, handle) action" where
  "the_driver s =
     (case driver s of
        None \<Rightarrow> (Inl (Exn AttributeError ''NoneType object has no such attribute''), s)
      | Some h \<Rightarrow> (Inr h, s))"

definition driver_get :: "('w, 'e) driver_capability \<Rightarrow> string \<Rightarrow> ('w, unit) action" where
  "driver_get drv url = bind the_driver (\<lambda>h. on_world (get drv h url))"

definition WebDriverWait_until ::
  "('w, 'e) driver_capability \<Rightarrow> nat \<Rightarrow> condition \<Rightarrow> ('w, 'e) action" where
  "WebDriverWait_until drv t c = bind the_driver (\<lambda>h. on_world (wait_until drv h t c))"

definition driver_find_element ::
  "('w, 'e) driver_capability \<Rightarrow> locator \<Rightarrow> ('w, 'e) action" where
  "driver_find_element drv l = bind the_driver (\<lambda>h. on_world (find_element drv h l))"

definition driver_find_elements ::
  "('w, 'e) driver_capability \<Rightarrow> locator \<Rightarrow> ('w, 'e list) action" where
  "driver_find_elements drv l = bind the_driver (\<lambda>h. on_world (find_elements drv h l))"

subsection \<open>Notifications\<close>

text \<open>
  \<^verbatim>\<open>_send_notification\<close>: the callback, when there is one, then the console. (An Isabelle
  name cannot start with an underscore.)
\<close>

definition send_notification :: "string \<Rightarrow> ('w, unit) action" where
  "send_notification message s =
     (Inr (),
      s\<lparr>sink := (if notification_callback s then sink s @ [message] else sink s),
        console := console s @ [message]\<rparr>)"

subsection \<open>Extraction\<close>

text \<open>
  \<^verbatim>\<open>str.strip()\<close> removes the whitespace at both ends. Strings are byte strings here, so
  the whitespace is the ASCII part of Python's: tab to carriage return, the four
  separators \<open>0x1C\<close> to \<open>0x1F\<close>, and the space.
\<close>

definition isspace :: "char \<Rightarrow> bool" where
  "isspace c = (c \<in> set [CHR 0x09, CHR 0x0A, CHR 0x0B, CHR 0x0C, CHR 0x0D,
                          CHR 0x1C, CHR 0x1D, CHR 0x1E, CHR 0x1F, CHR 0x20])"

definition strip :: "string \<Rightarrow> string" where
  "strip t = rev (dropWhile isspace (rev (dropWhile isspace t)))"

definition rows_locator :: locator where
  "rows_locator = (CSS_SELECTOR, ''table#datatable-sms-received tbody tr'')"

definition no_data_locator :: locator where
  "no_data_locator = (XPATH, ''//td[contains(text(), 'No data available in table')]'')"

definition message_cell_locator :: locator where
  "message_cell_locator = (XPATH, ''.//td[3]'')"

definition skip_notice :: string where
  "skip_notice = ''Could not find message text in a row. Skipping.''"

text \<open>Line 141: the text of the third cell of a row.\<close>

definition row_message :: "('w, 'e) driver_capability \<Rightarrow> 'e \<Rightarrow> ('w, string) action" where
  "row_message drv row =
     bind (on_world (elem_find_element drv row message_cell_locator))
          (\<lambda>cell. on_world (elem_text drv cell))"

text \<open>
  The loop over the rows (lines 139 to 145). The local list \<open>otps\<close> is threaded through;
  the result is \<open>None\<close> with the list when the loop ends, and \<open>Some e\<close> with the list as
  it stands when an exception other than \<^verbatim>\<open>NoSuchElementException\<close> leaves the loop.
\<close>

fun row_loop ::
  "('w, 'e) driver_capability \<Rightarrow> 'e list \<Rightarrow> string list \<Rightarrow> 'w scraper
     \<Rightarrow> (exn option \<times> string list) \<times> 'w scraper" where
  "row_loop drv [] otps s = ((None, otps), s)"
| "row_loop drv (row # rows) otps s =
     (case row_message drv row s of
        (Inr message_text, s1) \<Rightarrow> row_loop drv rows (otps @ [strip message_text]) s1
      | (Inl e, s1) \<Rightarrow>
          if isinstance e [NoSuchElementException]
          then row_loop drv rows otps
                 (snd (send_notification skip_notice s1))
          else ((Some e, otps), s1))"

text \<open>
  The handler of line 146, followed by \<^verbatim>\<open>return otps\<close> of line 148 with the list as the
  exception left it.
\<close>

definition extract_except :: "exn \<Rightarrow> string list \<Rightarrow> ('w, string list) action" where
  "extract_except e otps s =
     (if isinstance e [TimeoutException, NoSuchElementException, WebDriverException]
      then bind (send_notification (''Error extracting OTPs from table: '' @ str e))
                (\<lambda>_. ret otps) s
      else (Inl e, s))"

text \<open>
  The argument of the waits of lines 129 to 132 and 182 to 185, as Python evaluates it.
\<close>

definition table_wait_condition :: condition where
  "table_wait_condition =
     py_or (presence_of_element_located rows_locator)
           (presence_of_element_located no_data_locator)"

text \<open>Lines 129 to 134: the wait, then the lookup of the "no data" marker.\<close>

definition await_table :: "('w, 'e) driver_capability \<Rightarrow> ('w, 'e list) action" where
  "await_table drv =
     bind (WebDriverWait_until drv 10 table_wait_condition)
          (\<lambda>_. driver_find_elements drv no_data_locator)"

text \<open>\<^verbatim>\<open>_extract_otps_from_table\<close>.\<close>

definition extract_otps_from_table ::
  "('w, 'e) driver_capability \<Rightarrow> ('w, string list) action" where
  "extract_otps_from_table drv s =
     (case await_table drv s of
        (Inl e, s1) \<Rightarrow> extract_except e [] s1
      | (Inr marker, s1) \<Rightarrow>
          if marker \<noteq> []
          then bind (send_notification ''No data available in the SMS statistics table.'')
                    (\<lambda>_. ret []) s1
          else (case driver_find_elements drv rows_locator s1 of
                  (Inl e, s2) \<Rightarrow> extract_except e [] s2
                | (Inr rows, s2) \<Rightarrow>
                    (case row_loop drv rows [] s2 of
                       ((Some e, otps), s3) \<Rightarrow> extract_except e otps s3
                     | ((None, otps), s3) \<Rightarrow> (Inr otps, s3))))"

subsection \<open>Polling for new messages\<close>

text \<open>The loop of lines 155 to 158; a string is truthy when it is not empty.\<close>

fun new_messages_loop :: "string list \<Rightarrow> string list \<Rightarrow> ('w, string list) action" where
  "new_messages_loop [] new_messages s = (Inr new_messages, s)"
| "new_messages_loop (otp # current_otps) new_messages s =
     (if otp \<noteq> [] \<and> otp \<notin> sent_otps s
      then new_messages_loop current_otps (new_messages @ [otp])
             (s\<lparr>sent_otps := insert otp (sent_otps s)\<rparr>)
      else new_messages_loop current_otps new_messages s)"

definition fetch_new_otps_try :: "('w, 'e) driver_capability \<Rightarrow> ('w, string list) action" where
  "fetch_new_otps_try drv =
     bind (driver_get drv otp_page_url) (\<lambda>_.
     bind (extract_otps_from_table drv) (\<lambda>current_otps.
     new_messages_loop current_otps []))"

definition fetch_new_otps_except ::
  "(exn_class list \<times> (exn \<Rightarrow> ('w, string list) action)) list" where
  "fetch_new_otps_except =
     [([WebDriverException], \<lambda>e.
         bind (send_notification (''WebDriver error during new OTP fetch: '' @ str e))
              (\<lambda>_. ret [])),
      ([Exception], \<lambda>e.
         bind (send_notification
                 (''An unexpected error occurred during new OTP fetch: '' @ str e))
              (\<lambda>_. ret []))]"

definition fetch_new_otps :: "('w, 'e) driver_capability \<Rightarrow> ('w, string list) action" where
  "fetch_new_otps drv = try_except (fetch_new_otps_try drv) fetch_new_otps_except"

subsection \<open>Historical messages\<close>

definition date_from_locator :: locator where
  "date_from_locator = (ID, ''date_from'')"

definition date_to_locator :: locator where
  "date_to_locator = (ID, ''date_to'')"

definition get_sms_locator :: locator where
  "get_sms_locator = (XPATH, ''//button[contains(text(), 'Get SMS')]'')"

text \<open>Lines 169 to 185: the reload, the two date fields, the query and the wait for the table.\<close>

definition submit_date_range ::
  "('w, 'e) driver_capability \<Rightarrow> string \<Rightarrow> string \<Rightarrow> ('w, unit) action" where
  "submit_date_range drv start_date end_date =
     bind (driver_get drv otp_page_url) (\<lambda>_.
     bind (WebDriverWait_until drv 10 (presence_of_element_located date_from_locator)) (\<lambda>_.
     bind (driver_find_element drv date_from_locator) (\<lambda>date_from_field.
     bind (driver_find_element drv date_to_locator) (\<lambda>date_to_field.
     bind (driver_find_element drv get_sms_locator) (\<lambda>get_sms_button.
     bind (on_world (clear drv date_from_field)) (\<lambda>_.
     bind (on_world (send_keys drv date_from_field start_date)) (\<lambda>_.
     bind (on_world (clear drv date_to_field)) (\<lambda>_.
     bind (on_world (send_keys drv date_to_field end_date)) (\<lambda>_.
     bind (on_world (click drv get_sms_button)) (\<lambda>_.
     bind (WebDriverWait_until drv 15 table_wait_condition) (\<lambda>_.
     ret ())))))))))))"

definition get_historical_otps_try ::
  "('w, 'e) driver_capability \<Rightarrow> string \<Rightarrow> string \<Rightarrow> ('w, string list) action" where
  "get_historical_otps_try drv start_date end_date =
     bind (submit_date_range drv start_date end_date) (\<lambda>_. extract_otps_from_table drv)"

definition get_historical_otps_except ::
  "(exn_class list \<times> (exn \<Rightarrow> ('w, string list) action)) list" where
  "get_historical_otps_except =
     [([TimeoutException, NoSuchElementException, WebDriverException], \<lambda>e.
         bind (send_notification (''Error fetching historical OTPs: '' @ str e))
              (\<lambda>_. ret [])),
      ([Exception], \<lambda>e.
         bind (send_notification
                 (''An unexpected error occurred during historical OTP fetch: '' @ str e))
              (\<lambda>_. ret []))]"

definition get_historical_otps ::
  "('w, 'e) driver_capability \<Rightarrow> string \<Rightarrow> string \<Rightarrow> ('w, string list) action" where
  "get_historical_otps drv start_date end_date =
     try_except (get_historical_otps_try drv start_date end_date) get_historical_otps_except"

subsection \<open>Session: driver, login, pop-up, navigation, close\<close>

text \<open>
  \<^verbatim>\<open>_initialize_driver\<close>: an existing driver is quit, a new Chrome session is created with
  the options of the source and stored, and its two timeouts are set.
\<close>

definition initialize_driver :: "('w, 'e) driver_capability \<Rightarrow> ('w, unit) action" where
  "initialize_driver drv =
     bind (\<lambda>s. case driver s of
                  Some h \<Rightarrow> (Inr (), s\<lparr>world := quit drv h (world s)\<rparr>)
                | None \<Rightarrow> (Inr (), s)) (\<lambda>_.
     bind (on_world (chrome drv)) (\<lambda>h.
     bind (\<lambda>s. (Inr (), s\<lparr>driver := Some h\<rparr>)) (\<lambda>_.
     bind (on_world (set_page_load_timeout drv h 30)) (\<lambda>_.
     on_world (implicitly_wait drv h 10)))))"

definition email_locator :: locator where
  "email_locator = (NAME, ''email'')"

definition password_locator :: locator where
  "password_locator = (NAME, ''password'')"

definition login_button_locator :: locator where
  "login_button_locator = (XPATH, ''//button[contains(text(), 'Log in')]'')"

definition sidebar_menu_locator :: locator where
  "sidebar_menu_locator = (CLASS_NAME, ''sidebar-menu'')"

text \<open>The wait of lines 61 to 63, as Python evaluates its argument.\<close>

definition login_wait_condition :: condition where
  "login_wait_condition =
     py_or (url_contains ''/portal'') (presence_of_element_located sidebar_menu_locator)"

definition login_try :: "('w, 'e) driver_capability \<Rightarrow> ('w, bool) action" where
  "login_try drv =
     bind (\<lambda>s. if driver s = None then initialize_driver drv s else (Inr (), s)) (\<lambda>_.
     bind (driver_get drv login_url) (\<lambda>_.
     bind (WebDriverWait_until drv 20 (presence_of_element_located email_locator)) (\<lambda>_.
     bind (driver_find_element drv email_locator) (\<lambda>email_field.
     bind (driver_find_element drv password_locator) (\<lambda>password_field.
     bind (driver_find_element drv login_button_locator) (\<lambda>login_button.
     bind (\<lambda>s. on_world (send_keys drv email_field (email s)) s) (\<lambda>_.
     bind (\<lambda>s. on_world (send_keys drv password_field (password s)) s) (\<lambda>_.
     bind (on_world (click drv login_button)) (\<lambda>_.
     bind (WebDriverWait_until drv 20 login_wait_condition) (\<lambda>_.
     bind (send_notification ''Login successful.'') (\<lambda>_.
     ret True)))))))))))"

definition login_except ::
  "(exn_class list \<times> (exn \<Rightarrow> ('w, bool) action)) list" where
  "login_except =
     [([TimeoutException, NoSuchElementException, WebDriverException], \<lambda>e.
         bind (send_notification (''Login failed: '' @ str e)) (\<lambda>_. ret False)),
      ([Exception], \<lambda>e.
         bind (send_notification (''An unexpected error occurred during login: '' @ str e))
              (\<lambda>_. ret False))]"

definition login :: "('w, 'e) driver_capability \<Rightarrow> ('w, bool) action" where
  "login drv = try_except (login_try drv) login_except"

definition modal_locator :: locator where
  "modal_locator = (CSS_SELECTOR, ''.modal-content'')"

definition next_locator :: locator where
  "next_locator = (XPATH, ''//button[contains(text(), 'Next')]'')"

definition done_locator :: locator where
  "done_locator = (XPATH, ''//button[contains(text(), 'Done')]'')"

text \<open>The inner \<^verbatim>\<open>try\<close> of lines 78 to 84: a timeout around "Next" is passed over.\<close>

definition popup_next :: "('w, 'e) driver_capability \<Rightarrow> ('w, unit) action" where
  "popup_next drv =
     try_except
       (bind (WebDriverWait_until drv 3 (element_to_be_clickable next_locator)) (\<lambda>next_button.
        bind (on_world (click drv next_button)) (\<lambda>_.
        bind (WebDriverWait_until drv 3 (invisibility_of_element_located next_locator)) (\<lambda>_.
        send_notification ''Clicked Next on pop-up.''))))
       [([TimeoutException], \<lambda>e. ret ())]"

text \<open>Lines 78 to 90: what \<^verbatim>\<open>handle_popup\<close> does once the modal has been detected.\<close>

definition popup_dismiss :: "('w, 'e) driver_capability \<Rightarrow> ('w, bool) action" where
  "popup_dismiss drv =
     bind (popup_next drv) (\<lambda>_.
     bind (WebDriverWait_until drv 5 (element_to_be_clickable done_locator)) (\<lambda>done_button.
     bind (on_world (click drv done_button)) (\<lambda>_.
     bind (WebDriverWait_until drv 5 (invisibility_of_element_located modal_locator)) (\<lambda>_.
     bind (send_notification ''Pop-up closed successfully.'') (\<lambda>_.
     ret True)))))"

definition handle_popup_try :: "('w, 'e) driver_capability \<Rightarrow> ('w, bool) action" where
  "handle_popup_try drv =
     bind (WebDriverWait_until drv 5 (presence_of_element_located modal_locator)) (\<lambda>_.
     bind (send_notification ''Pop-up detected. Attempting to close.'') (\<lambda>_.
     popup_dismiss drv))"

definition handle_popup_except ::
  "(exn_class list \<times> (exn \<Rightarrow> ('w, bool) action)) list" where
  "handle_popup_except =
     [([TimeoutException], \<lambda>e.
         bind (send_notification ''No pop-up or pop-up closed automatically.'')
              (\<lambda>_. ret False)),
      ([NoSuchElementException, WebDriverException], \<lambda>e.
         bind (send_notification (''Error handling pop-up: '' @ str e)) (\<lambda>_. ret False)),
      ([Exception], \<lambda>e.
         bind (send_notification
                 (''An unexpected error occurred during pop-up handling: '' @ str e))
              (\<lambda>_. ret False))]"

definition handle_popup :: "('w, 'e) driver_capability \<Rightarrow> ('w, bool) action" where
  "handle_popup drv = try_except (handle_popup_try drv) handle_popup_except"

definition client_system_locator :: locator where
  "client_system_locator =
     (XPATH, ''//a[contains(@href, '#') and contains(., 'Client System')]'')"

definition my_sms_statistics_locator :: locator where
  "my_sms_statistics_locator =
     (XPATH, ''//a[contains(@href, '/portal/sms/received') and contains(., 'My SMS Statistics')]'')"

definition navigate_to_otp_page_try :: "('w, 'e) driver_capability \<Rightarrow> ('w, bool) action" where
  "navigate_to_otp_page_try drv =
     bind (WebDriverWait_until drv 10 (presence_of_element_located sidebar_menu_locator)) (\<lambda>_.
     bind (WebDriverWait_until drv 10 (element_to_be_clickable client_system_locator))
       (\<lambda>client_system_menu.
     bind (on_world (click drv client_system_menu)) (\<lambda>_.
     bind (\<lambda>s. (Inr (), s\<lparr>world := sleep drv 1 (world s)\<rparr>)) (\<lambda>_.
     bind (WebDriverWait_until drv 10 (element_to_be_clickable my_sms_statistics_locator))
       (\<lambda>my_sms_statistics_link.
     bind (on_world (click drv my_sms_statistics_link)) (\<lambda>_.
     bind (WebDriverWait_until drv 15 (url_to_be otp_page_url)) (\<lambda>_.
     bind (send_notification ''Successfully navigated to My SMS Statistics page.'') (\<lambda>_.
     ret True))))))))"

definition navigate_to_otp_page_except ::
  "(exn_class list \<times> (exn \<Rightarrow> ('w, bool) action)) list" where
  "navigate_to_otp_page_except =
     [([TimeoutException, NoSuchElementException, WebDriverException], \<lambda>e.
         bind (send_notification (''Navigation to OTP page failed: '' @ str e))
              (\<lambda>_. ret False)),
      ([Exception], \<lambda>e.
         bind (send_notification
                 (''An unexpected error occurred during navigation: '' @ str e))
              (\<lambda>_. ret False))]"

definition navigate_to_otp_page :: "('w, 'e) driver_capability \<Rightarrow> ('w, bool) action" where
  "navigate_to_otp_page drv =
     try_except (navigate_to_otp_page_try drv) navigate_to_otp_page_except"

text \<open>\<^verbatim>\<open>close\<close> has no handler of its own.\<close>

definition close :: "('w, 'e) driver_capability \<Rightarrow> ('w, unit) action" where
  "close drv s =
     (case driver s of
        None \<Rightarrow> (Inr (), s)
      | Some h \<Rightarrow> (Inr (), s\<lparr>world := quit drv h (world s), driver := None\<rparr>))"

section \<open>A stub of the driver capability\<close>

text \<open>
  A fake browser for concrete runs. Its world is one page: the URL, the locators that find
  an element, the locators whose element can be clicked, the rows of the feed table, the
  text typed into fields, and for some locators what a click on their element does: it
  shows another page, or it makes the portal filter its archive of dated rows by the
  date fields. A row is the list of the texts of its cells, or a row whose lookup raises (a
  row that went stale). A page does not change while the engine waits, so a condition that
  does not hold at once does not hold within any bound.
\<close>

datatype stub_row = Cells "string list" | Broken exn

datatype stub_elem = El locator | RowEl stub_row | CellEl string | Document

datatype stub_world =
  Stub (cur_url: string) (present: "locator list") (clickable: "locator list")
       (rows: "stub_row list") (typed: "(locator \<times> string) list")
       (on_click: "(locator \<times> click_effect) list")
and click_effect =
  Shows stub_world | Filters "(string \<times> stub_row) list"

fun startswith :: "string \<Rightarrow> string \<Rightarrow> bool" where
  "startswith [] t = True"
| "startswith (x # xs) [] = False"
| "startswith (x # xs) (y # ys) = (x = y \<and> startswith xs ys)"

fun str_contains :: "string \<Rightarrow> string \<Rightarrow> bool" where
  "str_contains xs [] = (xs = [])"
| "str_contains xs (y # ys) = (startswith xs (y # ys) \<or> str_contains xs ys)"

definition stub_located :: "stub_world \<Rightarrow> locator \<Rightarrow> stub_elem list" where
  "stub_located w l =
     (if l = rows_locator then map RowEl (rows w)
      else if l \<in> set (present w) then [El l] else [])"

fun stub_holds :: "stub_world \<Rightarrow> condition \<Rightarrow> stub_elem option" where
  "stub_holds w (presence_of_element_located l) =
     (case stub_located w l of [] \<Rightarrow> None | e # _ \<Rightarrow> Some e)"
| "stub_holds w (element_to_be_clickable l) =
     (if l \<in> set (clickable w)
      then (case stub_located w l of [] \<Rightarrow> None | e # _ \<Rightarrow> Some e) else None)"
| "stub_holds w (invisibility_of_element_located l) =
     (if stub_located w l = [] then Some Document else None)"
| "stub_holds w (url_contains t) =
     (if str_contains t (cur_url w) then Some Document else None)"
| "stub_holds w (url_to_be t) = (if cur_url w = t then Some Document else None)"

definition stub_wait_until ::
  "handle \<Rightarrow> nat \<Rightarrow> condition \<Rightarrow> stub_world \<Rightarrow> (exn + stub_elem) \<times> stub_world" where
  "stub_wait_until h t c w =
     (case stub_holds w c of
        Some e \<Rightarrow> (Inr e, w)
      | None \<Rightarrow> (Inl (Exn TimeoutException ''Message: ''), w))"

definition no_such_element :: exn where
  "no_such_element = Exn NoSuchElementException ''Message: no such element''"

definition stub_find_element ::
  "handle \<Rightarrow> locator \<Rightarrow> stub_world \<Rightarrow> (exn + stub_elem) \<times> stub_world" where
  "stub_find_element h l w =
     (case stub_located w l of [] \<Rightarrow> (Inl no_such_element, w) | e # _ \<Rightarrow> (Inr e, w))"

fun stub_elem_find_element ::
  "stub_elem \<Rightarrow> locator \<Rightarrow> stub_world \<Rightarrow> (exn + stub_elem) \<times> stub_world" where
  "stub_elem_find_element (RowEl (Cells (a # b # c # cs))) l w =
     (if l = message_cell_locator then (Inr (CellEl c), w) else (Inl no_such_element, w))"
| "stub_elem_find_element (RowEl (Broken e)) l w = (Inl e, w)"
| "stub_elem_find_element x l w = (Inl no_such_element, w)"

fun stub_elem_text :: "stub_elem \<Rightarrow> stub_world \<Rightarrow> (exn + string) \<times> stub_world" where
  "stub_elem_text (CellEl t) w = (Inr t, w)"
| "stub_elem_text x w = (Inr [], w)"

fun stub_send_keys ::
  "stub_elem \<Rightarrow> string \<Rightarrow> stub_world \<Rightarrow> (exn + unit) \<times> stub_world" where
  "stub_send_keys (El l) t (Stub u p c r ty oc) = (Inr (), Stub u p c r (ty @ [(l, t)]) oc)"
| "stub_send_keys x t w = (Inr (), w)"

fun stub_clear :: "stub_elem \<Rightarrow> stub_world \<Rightarrow> (exn + unit) \<times> stub_world" where
  "stub_clear (El l) (Stub u p c r ty oc) =
     (Inr (), Stub u p c r (filter (\<lambda>k. fst k \<noteq> l) ty) oc)"
| "stub_clear x w = (Inr (), w)"

text \<open>
  What a field holds: the texts typed into it since it was last cleared. Dates of the form
  \<^verbatim>\<open>YYYY-MM-DD\<close> are compared as strings.
\<close>

definition field_value :: "(locator \<times> string) list \<Rightarrow> locator \<Rightarrow> string" where
  "field_value ty l = concat (map snd (filter (\<lambda>k. fst k = l) ty))"

fun str_le :: "string \<Rightarrow> string \<Rightarrow> bool" where
  "str_le [] t = True"
| "str_le (x # xs) [] = False"
| "str_le (x # xs) (y # ys) = ((of_char x :: nat) < of_char y \<or> (x = y \<and> str_le xs ys))"

definition in_range :: "string \<Rightarrow> string \<Rightarrow> (string \<times> stub_row) list \<Rightarrow> stub_row list" where
  "in_range lo hi archive =
     map snd (filter (\<lambda>k. str_le lo (fst k) \<and> str_le (fst k) hi) archive)"

text \<open>
  The portal's answer to a query: its table shows the rows of the archive whose date lies
  between what the two date fields hold.
\<close>

fun rerender :: "(string \<times> stub_row) list \<Rightarrow> stub_world \<Rightarrow> stub_world" where
  "rerender archive (Stub u p c r ty oc) =
     Stub u p c
       (in_range (field_value ty (ID, ''date_from'')) (field_value ty (ID, ''date_to'')) archive)
       ty oc"

fun stub_click :: "stub_elem \<Rightarrow> stub_world \<Rightarrow> (exn + unit) \<times> stub_world" where
  "stub_click (El l) w =
     (case map_of (on_click w) l of
        Some (Shows w') \<Rightarrow> (Inr (), w')
      | Some (Filters archive) \<Rightarrow> (Inr (), rerender archive w)
      | None \<Rightarrow> (Inr (), w))"
| "stub_click x w = (Inr (), w)"

fun stub_get :: "handle \<Rightarrow> string \<Rightarrow> stub_world \<Rightarrow> (exn + unit) \<times> stub_world" where
  "stub_get h url (Stub u p c r ty oc) = (Inr (), Stub url p c r ty oc)"

definition stub_driver :: "(stub_world, stub_elem) driver_capability" where
  "stub_driver =
     \<lparr>chrome = (\<lambda>w. (Inr 0, w)),
      set_page_load_timeout = (\<lambda>h t w. (Inr (), w)),
      implicitly_wait = (\<lambda>h t w. (Inr (), w)),
      quit = (\<lambda>h w. w),
      get = stub_get,
      wait_until = stub_wait_until,
      find_element = stub_find_element,
      find_elements = (\<lambda>h l w. (Inr (stub_located w l), w)),
      elem_find_element = stub_elem_find_element,
      elem_text = stub_elem_text,
      send_keys = stub_send_keys,
      click = stub_click,
      clear = stub_clear,
      sleep = (\<lambda>t w. w)\<rparr>"

text \<open>An engine with a callback installed and a driver at hand, on the page \<open>w\<close>.\<close>

definition session :: "string set \<Rightarrow> 'w \<Rightarrow> 'w scraper" where
  "session seen w = (init ''user@example.com'' ''secret'' True w)\<lparr>driver := Some 0, sent_otps := seen\<rparr>"

text \<open>The feed page with the given rows and no "no data" marker.\<close>

definition feed_page :: "stub_row list \<Rightarrow> stub_world" where
  "feed_page rs =
     Stub otp_page_url [date_from_locator, date_to_locator, get_sms_locator] [get_sms_locator]
          rs [] []"

section \<open>Runs and pages for the statements\<close>

text \<open>
  The caller's polling job: \<open>n\<close> calls of \<^verbatim>\<open>fetch_new_otps\<close> in a row, collecting what each
  returns. An exception of a call would end the run.
\<close>

fun poll_many ::
  "('w, 'e) driver_capability \<Rightarrow> nat \<Rightarrow> ('w, string list list) action" where
  "poll_many drv 0 s = (Inr [], s)"
| "poll_many drv (Suc n) s =
     (case fetch_new_otps drv s of
        (Inl e, s1) \<Rightarrow> (Inl e, s1)
      | (Inr new_otps, s1) \<Rightarrow>
          (case poll_many drv n s1 of
             (Inl e, s2) \<Rightarrow> (Inl e, s2)
           | (Inr later, s2) \<Rightarrow> (Inr (new_otps # later), s2)))"

text \<open>An action keeps the set of sent messages when the set is the same after it.\<close>

definition keeps_sent :: "('w scraper \<Rightarrow> 'r \<times> 'w scraper) \<Rightarrow> bool" where
  "keeps_sent m = (\<forall>s. sent_otps (snd (m s)) = sent_otps s)"

text \<open>The state after the messages \<open>msgs\<close> have been notified, in this order.\<close>

definition notified :: "string list \<Rightarrow> 'w scraper \<Rightarrow> 'w scraper" where
  "notified msgs s =
     s\<lparr>sink := (if notification_callback s then sink s @ msgs else sink s),
       console := console s @ msgs\<rparr>"

text \<open>
  What a feed of rows of cells shows: the third cell of a row is its message; \<open>bodies\<close> are
  the stripped messages of the rows that have one, \<open>skipped\<close> counts the rows that have none.
\<close>

fun message_cell :: "string list \<Rightarrow> string option" where
  "message_cell (a # b # c # cs) = Some c"
| "message_cell cs = None"

definition bodies :: "string list list \<Rightarrow> string list" where
  "bodies css = concat (map (\<lambda>cs. case message_cell cs of Some c \<Rightarrow> [strip c] | None \<Rightarrow> []) css)"

definition skipped :: "string list list \<Rightarrow> nat" where
  "skipped css = length (filter (\<lambda>cs. message_cell cs = None) css)"

text \<open>Feed pages for concrete runs; the first cell of a row is its date.\<close>

definition two_row_feed :: stub_world where
  "two_row_feed =
     feed_page [Cells [''2025-10-05 10:15:00'', ''+15550001'', ''Your code is 1111''],
                Cells [''2025-11-02 08:00:00'', ''+15550001'', ''Your code is 2222'']]"

definition torn_feed :: stub_world where
  "torn_feed =
     feed_page (map Cells ([[''2025-10-05 10:15:00'', ''+15550001'', ''Your code is 1111'']]
                @ [[''Loading...'']]
                @ [[''2025-10-06 09:00:00'', ''+15550001'', '' Your code is 2222 '']]))"

definition blank_feed :: stub_world where
  "blank_feed =
     feed_page (map Cells ([[''2025-10-05 10:15:00'', ''+15550001'', ''Your code is 1111'']]
                @ [[''2025-10-05 10:16:00'', ''+15550001'', ''   '']]
                @ []))"

text \<open>
  Pages for the session methods. After the click on "Log in" the portal shows a page
  whose address is outside \<^verbatim>\<open>/portal\<close> and which has the sidebar menu.
\<close>

definition dashboard_page :: stub_world where
  "dashboard_page = Stub (base_url @ ''/dashboard'') [sidebar_menu_locator] [] [] [] []"

definition login_page :: stub_world where
  "login_page =
     Stub login_url [email_locator, password_locator, login_button_locator]
          [login_button_locator] [] [] [(login_button_locator, Shows dashboard_page)]"

text \<open>
  A portal page without a modal; one with a modal that a click on "Done" closes and that
  has no "Next"; one with a modal whose "Done" never becomes clickable; one with a modal
  that stays after the click on "Done".
\<close>

definition no_modal_page :: stub_world where
  "no_modal_page = Stub (base_url @ ''/portal'') [sidebar_menu_locator] [] [] [] []"






text \<open>
  The feed page with its date fields: the rows it shows, what the fields hold, and what a
  click does. \<open>set_dates\<close> is what the fields hold once both have been cleared and filled.
\<close>

definition query_page ::
  "stub_row list \<Rightarrow> (locator \<times> string) list \<Rightarrow> (locator \<times> click_effect) list \<Rightarrow> stub_world" where
  "query_page rs ty oc =
     Stub otp_page_url [date_from_locator, date_to_locator, get_sms_locator] [get_sms_locator]
          rs ty oc"

definition set_dates ::
  "(locator \<times> string) list \<Rightarrow> string \<Rightarrow> string \<Rightarrow> (locator \<times> string) list" where
  "set_dates ty start_date end_date =
     filter (\<lambda>k. fst k \<noteq> date_from_locator \<and> fst k \<noteq> date_to_locator) ty
       @ [(date_from_locator, start_date), (date_to_locator, end_date)]"





text \<open>
  Two states have the same log when the sink and the console hold the same messages and
  the callback is the same; an action is quiet when it leaves the log as it is.
\<close>

definition same_log :: "'w scraper \<Rightarrow> 'w scraper \<Rightarrow> bool" where
  "same_log a b =
     (sink a = sink b \<and> console a = console b
      \<and> notification_callback a = notification_callback b)"




section \<open>The set of sent messages is touched by the polling loop only\<close>

text \<open>
  Every operation of the capability keeps the set of sent messages, whatever it returns or
  raises, and so does every method except \<^verbatim>\<open>fetch_new_otps\<close>.
\<close>

lemma keeps_sentD: "keeps_sent m \<Longrightarrow> m s = (r, s') \<Longrightarrow> sent_otps s' = sent_otps s"
  unfolding keeps_sent_def by (metis snd_conv)

lemma keeps_ret: "keeps_sent (ret x)"
  by (simp add: keeps_sent_def ret_def)

lemma keeps_send_notification: "keeps_sent (send_notification m)"
  by (simp add: keeps_sent_def send_notification_def)

lemma keeps_on_world: "keeps_sent (on_world f)"
  by (simp add: keeps_sent_def on_world_def split: prod.split)

lemma keeps_the_driver: "keeps_sent the_driver"
  by (simp add: keeps_sent_def the_driver_def split: option.split)

lemma keeps_bind: "keeps_sent m \<Longrightarrow> (\<And>x. keeps_sent (f x)) \<Longrightarrow> keeps_sent (bind m f)"
  by (auto simp: keeps_sent_def bind_def split: prod.split sum.split) (metis snd_conv)+

lemma keeps_self: "(\<And>t. keeps_sent (g t)) \<Longrightarrow> keeps_sent (\<lambda>s. g s s)"
  by (simp add: keeps_sent_def)

lemma keeps_dispatch:
  "list_all (\<lambda>ch. \<forall>e. keeps_sent (snd ch e)) hs \<Longrightarrow> keeps_sent (dispatch hs e)"
  by (induction hs) (auto simp: keeps_sent_def split: if_splits)

lemma keeps_try_except:
  "keeps_sent body \<Longrightarrow> list_all (\<lambda>ch. \<forall>e. keeps_sent (snd ch e)) hs
     \<Longrightarrow> keeps_sent (try_except body hs)"
  using keeps_dispatch [of hs]
  by (auto simp: keeps_sent_def try_except_def split: prod.split sum.split) (metis snd_conv)+

lemma keeps_world_update: "keeps_sent (\<lambda>s. (Inr (), s\<lparr>world := g s\<rparr>))"
  by (simp add: keeps_sent_def)

lemma keeps_driver_update: "keeps_sent (\<lambda>s. (Inr (), s\<lparr>driver := g s\<rparr>))"
  by (simp add: keeps_sent_def)

lemmas keeps_intros =
  keeps_ret keeps_send_notification keeps_on_world keeps_the_driver keeps_bind
  keeps_world_update keeps_driver_update

lemma keeps_driver_get: "keeps_sent (driver_get drv u)"
  unfolding driver_get_def by (intro keeps_intros)

lemma keeps_wait: "keeps_sent (WebDriverWait_until drv t c)"
  unfolding WebDriverWait_until_def by (intro keeps_intros)

lemma keeps_find_element: "keeps_sent (driver_find_element drv l)"
  unfolding driver_find_element_def by (intro keeps_intros)

lemma keeps_find_elements: "keeps_sent (driver_find_elements drv l)"
  unfolding driver_find_elements_def by (intro keeps_intros)

lemmas keeps_driver = keeps_driver_get keeps_wait keeps_find_element keeps_find_elements

lemma row_loop_sent: "sent_otps (snd (row_loop drv rs otps s)) = sent_otps s"
proof (induction rs arbitrary: otps s)
  case Nil
  show ?case by simp
next
  case (Cons row rs)
  have k: "keeps_sent (row_message drv row)"
    unfolding row_message_def by (intro keeps_intros)
  show ?case
    using Cons.IH keeps_sentD [OF k, of s]
    by (auto simp: send_notification_def split: prod.split sum.split)
qed

lemma keeps_extract_except: "keeps_sent (extract_except e otps)"
  unfolding keeps_sent_def extract_except_def
  by (simp add: bind_def send_notification_def ret_def)

lemma keeps_extract: "keeps_sent (extract_otps_from_table drv)"
  unfolding keeps_sent_def
proof
  fix s :: "'a scraper"
  let ?m = "await_table drv"
  have k1: "keeps_sent ?m"
    unfolding await_table_def by (intro keeps_intros keeps_driver)
  obtain r1 s1 where a: "?m s = (r1, s1)" by fastforce
  have s1: "sent_otps s1 = sent_otps s" by (rule keeps_sentD [OF k1 a])
  obtain r2 s2 where b: "driver_find_elements drv rows_locator s1 = (r2, s2)" by fastforce
  have s2: "sent_otps s2 = sent_otps s1" by (rule keeps_sentD [OF keeps_find_elements b])
  have x: "sent_otps (snd (extract_except e otps t)) = sent_otps t"
    for e otps and t :: "'a scraper"
    by (simp add: extract_except_def bind_def send_notification_def ret_def)
  show "sent_otps (snd (extract_otps_from_table drv s)) = sent_otps s"
  proof (cases r1)
    case (Inl e)
    then show ?thesis using a s1 x by (simp add: extract_otps_from_table_def)
  next
    case (Inr marker)
    show ?thesis
    proof (cases "marker = []")
      case False
      then show ?thesis using a Inr s1
        by (simp add: extract_otps_from_table_def bind_def send_notification_def ret_def)
    next
      case True
      show ?thesis
      proof (cases r2)
        case (Inl e)
        then show ?thesis using a b \<open>r1 = Inr marker\<close> True s1 s2 x
          by (simp add: extract_otps_from_table_def)
      next
        case (Inr rs)
        obtain eo otps s3 where c: "row_loop drv rs [] s2 = ((eo, otps), s3)"
          by (metis prod.exhaust)
        have s3: "sent_otps s3 = sent_otps s2" using row_loop_sent [of drv rs "[]" s2] c by simp
        show ?thesis using a b c \<open>r1 = Inr marker\<close> Inr True s1 s2 s3 x
          by (cases eo) (simp_all add: extract_otps_from_table_def)
      qed
    qed
  qed
qed


lemma keeps_get_historical_otps: "keeps_sent (get_historical_otps drv a b)"
  unfolding get_historical_otps_def get_historical_otps_try_def get_historical_otps_except_def
    submit_date_range_def
  by (intro keeps_try_except keeps_intros keeps_driver keeps_extract) (simp add: keeps_intros)

lemma keeps_initialize_driver: "keeps_sent (initialize_driver drv)"
proof -
  have "keeps_sent (\<lambda>s. case driver s of
                  Some h \<Rightarrow> (Inr (), s\<lparr>world := quit drv h (world s)\<rparr>)
                | None \<Rightarrow> (Inr (), s))"
    by (simp add: keeps_sent_def split: option.split)
  then show ?thesis
    unfolding initialize_driver_def by (intro keeps_intros)
qed

lemma keeps_login: "keeps_sent (login drv)"
proof -
  have i: "keeps_sent (\<lambda>s. if driver s = None then initialize_driver drv s else (Inr (), s))"
    using keeps_initialize_driver [of drv] by (simp add: keeps_sent_def)
  have k: "keeps_sent (\<lambda>s. on_world (f s) s)" for f :: "'a scraper \<Rightarrow> 'a \<Rightarrow> (exn + unit) \<times> 'a"
    by (rule keeps_self) (rule keeps_on_world)
  show ?thesis
    unfolding login_def login_try_def login_except_def
    by (intro keeps_try_except keeps_intros keeps_driver i k) (simp add: keeps_intros)
qed

lemma keeps_handle_popup: "keeps_sent (handle_popup drv)"
proof -
  have n: "keeps_sent (popup_next drv)"
    unfolding popup_next_def
    by (intro keeps_try_except keeps_intros keeps_driver) (simp add: keeps_intros)
  show ?thesis
    unfolding handle_popup_def handle_popup_try_def popup_dismiss_def handle_popup_except_def
    by (intro keeps_try_except keeps_intros keeps_driver n) (simp add: keeps_intros)
qed

lemma keeps_navigate_to_otp_page: "keeps_sent (navigate_to_otp_page drv)"
  unfolding navigate_to_otp_page_def navigate_to_otp_page_try_def navigate_to_otp_page_except_def
  by (intro keeps_try_except keeps_intros keeps_driver) (simp add: keeps_intros)

lemma keeps_close: "keeps_sent (close drv)"
  by (simp add: keeps_sent_def close_def split: option.split)

section \<open>Polling\<close>

text \<open>
  The loop of \<^verbatim>\<open>fetch_new_otps\<close> appends to its output exactly the messages it adds to the
  set, each once, none of them empty and none of them in the set before.
\<close>

lemma new_messages_loop_spec:
  "\<exists>added. new_messages_loop otps acc s = (Inr (acc @ added), s\<lparr>sent_otps := sent_otps s \<union> set added\<rparr>)
     \<and> distinct added \<and> set added \<inter> sent_otps s = {} \<and> [] \<notin> set added \<and> set added \<subseteq> set otps"
proof (induction otps arbitrary: acc s)
  case Nil
  show ?case by simp
next
  case (Cons otp otps)
  show ?case
  proof (cases "otp \<noteq> [] \<and> otp \<notin> sent_otps s")
    case False
    then show ?thesis using Cons.IH [of acc s] by auto
  next
    case True
    let ?s = "s\<lparr>sent_otps := insert otp (sent_otps s)\<rparr>"
    obtain added where a: "new_messages_loop otps (acc @ [otp]) ?s
        = (Inr ((acc @ [otp]) @ added), ?s\<lparr>sent_otps := sent_otps ?s \<union> set added\<rparr>)"
      and d: "distinct added" and i: "set added \<inter> sent_otps ?s = {}"
      and e: "[] \<notin> set added" and sub: "set added \<subseteq> set otps"
      using Cons.IH [of "acc @ [otp]" ?s] by blast
    have "new_messages_loop (otp # otps) acc s
        = (Inr (acc @ otp # added), s\<lparr>sent_otps := sent_otps s \<union> set (otp # added)\<rparr>)"
      using True a by simp
    moreover have "distinct (otp # added)" using d i by auto
    moreover have "set (otp # added) \<inter> sent_otps s = {}" using True i by auto
    moreover have "[] \<notin> set (otp # added)" using True e by auto
    moreover have "set (otp # added) \<subseteq> set (otp # otps)" using sub by auto
    ultimately show ?thesis by blast
  qed
qed


lemma fetch_new_otps_handlers:
  "\<exists>s'. dispatch fetch_new_otps_except e s = (Inr [], s') \<and> sent_otps s' = sent_otps s"
  by (simp add: fetch_new_otps_except_def bind_def send_notification_def ret_def)

lemma fetch_new_otps_spec:
  "\<exists>r s'. fetch_new_otps drv s = (Inr r, s') \<and> distinct r \<and> set r \<inter> sent_otps s = {}
     \<and> [] \<notin> set r \<and> sent_otps s' = sent_otps s \<union> set r"
proof -
  obtain r1 s1 where g: "driver_get drv otp_page_url s = (r1, s1)" by fastforce
  have s1: "sent_otps s1 = sent_otps s" by (rule keeps_sentD [OF keeps_driver_get g])
  obtain r2 s2 where x: "extract_otps_from_table drv s1 = (r2, s2)" by fastforce
  have s2: "sent_otps s2 = sent_otps s1" by (rule keeps_sentD [OF keeps_extract x])
  show ?thesis
  proof (cases r1)
    case (Inl e)
    then have "fetch_new_otps_try drv s = (Inl e, s1)"
      using g by (simp add: fetch_new_otps_try_def bind_def)
    then show ?thesis
      using fetch_new_otps_handlers [of e s1] s1
      by (auto simp: fetch_new_otps_def try_except_def)
  next
    case a: (Inr u)
    show ?thesis
    proof (cases r2)
      case (Inl e)
      then have "fetch_new_otps_try drv s = (Inl e, s2)"
        using g x a by (simp add: fetch_new_otps_try_def bind_def)
      then show ?thesis
        using fetch_new_otps_handlers [of e s2] s1 s2
        by (auto simp: fetch_new_otps_def try_except_def)
    next
      case (Inr current_otps)
      obtain added where l: "new_messages_loop current_otps [] s2
          = (Inr added, s2\<lparr>sent_otps := sent_otps s2 \<union> set added\<rparr>)"
        and p: "distinct added" "set added \<inter> sent_otps s2 = {}" "[] \<notin> set added"
        using new_messages_loop_spec [of current_otps "[]" s2] by auto
      have "fetch_new_otps drv s = (Inr added, s2\<lparr>sent_otps := sent_otps s2 \<union> set added\<rparr>)"
        using g x a Inr l by (simp add: fetch_new_otps_def try_except_def fetch_new_otps_try_def bind_def)
      then show ?thesis using p s1 s2 by auto
    qed
  qed
qed

lemma poll_many_spec:
  "\<exists>outs s'. poll_many drv n s = (Inr outs, s') \<and> length outs = n \<and> distinct (concat outs)
     \<and> set (concat outs) \<inter> sent_otps s = {} \<and> sent_otps s' = sent_otps s \<union> set (concat outs)"
proof (induction n arbitrary: s)
  case 0
  show ?case by simp
next
  case (Suc n)
  obtain r s1 where f: "fetch_new_otps drv s = (Inr r, s1)" and d: "distinct r"
    and i: "set r \<inter> sent_otps s = {}" and u: "sent_otps s1 = sent_otps s \<union> set r"
    using fetch_new_otps_spec [of drv s] by blast
  obtain outs s2 where p: "poll_many drv n s1 = (Inr outs, s2)" and l: "length outs = n"
    and d2: "distinct (concat outs)" and i2: "set (concat outs) \<inter> sent_otps s1 = {}"
    and u2: "sent_otps s2 = sent_otps s1 \<union> set (concat outs)"
    using Suc.IH [of s1] by blast
  have "poll_many drv (Suc n) s = (Inr (r # outs), s2)" using f p by simp
  moreover have "distinct (concat (r # outs))" using d d2 i2 u by auto
  moreover have "set (concat (r # outs)) \<inter> sent_otps s = {}" using i i2 u by auto
  moreover have "sent_otps s2 = sent_otps s \<union> set (concat (r # outs))" using u u2 by auto
  ultimately show ?case using l by auto
qed

section \<open>Runs of the stub\<close>

lemma send_notification_notified: "send_notification m s = (Inr (), notified [m] s)"
  by (simp add: send_notification_def notified_def)

lemma notified_notified: "notified b (notified a s) = notified (a @ b) s"
  by (simp add: notified_def)

lemma notified_Nil: "notified [] s = s"
  by (simp add: notified_def)

lemma notified_fields:
  "driver (notified m s) = driver s" "world (notified m s) = world s"
  "sent_otps (notified m s) = sent_otps s"
  "notification_callback (notified m s) = notification_callback s"
  by (simp_all add: notified_def)

lemma stub_ops:
  "get stub_driver = stub_get" "wait_until stub_driver = stub_wait_until"
  "find_element stub_driver = stub_find_element"
  "find_elements stub_driver = (\<lambda>h l w. (Inr (stub_located w l), w))"
  "elem_find_element stub_driver = stub_elem_find_element"
  "elem_text stub_driver = stub_elem_text"
  "send_keys stub_driver = stub_send_keys" "click stub_driver = stub_click"
  "clear stub_driver = stub_clear"
  by (simp_all add: stub_driver_def)

lemma stub_row_loop:
  "row_loop stub_driver (map (\<lambda>cs. RowEl (Cells cs)) css) otps s
     = ((None, otps @ bodies css), notified (replicate (skipped css) skip_notice) s)"
proof (induction css arbitrary: otps s)
  case Nil
  show ?case by (simp add: bodies_def skipped_def notified_Nil)
next
  case (Cons cs css)
  show ?case
  proof (cases "message_cell cs")
    case None
    then have f: "stub_elem_find_element (RowEl (Cells cs)) message_cell_locator (world s)
        = (Inl no_such_element, world s)"
      by (cases cs rule: message_cell.cases) simp_all
    have "row_loop stub_driver (map (\<lambda>cs. RowEl (Cells cs)) (cs # css)) otps s
        = row_loop stub_driver (map (\<lambda>cs. RowEl (Cells cs)) css) otps (notified [skip_notice] s)"
      using f by (simp add: row_message_def bind_def on_world_def stub_ops no_such_element_def
          send_notification_notified)
    then show ?thesis
      using None Cons.IH [of otps "notified [skip_notice] s"]
      by (simp add: bodies_def skipped_def notified_notified replicate_append_same)
  next
    case (Some c)
    then have f: "stub_elem_find_element (RowEl (Cells cs)) message_cell_locator (world s)
        = (Inr (CellEl c), world s)"
      by (cases cs rule: message_cell.cases) simp_all
    have "row_loop stub_driver (map (\<lambda>cs. RowEl (Cells cs)) (cs # css)) otps s
        = row_loop stub_driver (map (\<lambda>cs. RowEl (Cells cs)) css) (otps @ [strip c]) s"
      using f by (simp add: row_message_def bind_def on_world_def stub_ops)
    then show ?thesis
      using Some Cons.IH [of "otps @ [strip c]" s]
      by (simp add: bodies_def skipped_def)
  qed
qed


lemma stub_waits:
  "table_wait_condition = presence_of_element_located rows_locator"
  "login_wait_condition = url_contains ''/portal''"
  by (simp_all add: table_wait_condition_def login_wait_condition_def py_or_def truthy_def)

lemma stub_located_rows: "stub_located (Stub u p c rs ty oc) rows_locator = map RowEl rs"
  by (simp add: stub_located_def)

lemma stub_located_no_data:
  "stub_located (Stub u p c rs ty oc) no_data_locator
     = (if no_data_locator \<in> set p then [El no_data_locator] else [])"
  by (simp add: stub_located_def no_data_locator_def rows_locator_def)

lemma stub_extract:
  assumes d: "driver s = Some h"
    and w: "world s = Stub u p c (map Cells css) ty oc"
    and n: "no_data_locator \<notin> set p"
    and r: "css \<noteq> []"
  shows "extract_otps_from_table stub_driver s
     = (Inr (bodies css), notified (replicate (skipped css) skip_notice) s)"
proof -
  have e: "s\<lparr>world := world s\<rparr> = s" by simp
  have a: "await_table stub_driver s = (Inr [], s)"
    using d w n r e
    by (cases css) (simp_all add: await_table_def bind_def WebDriverWait_until_def the_driver_def
        on_world_def stub_ops stub_waits stub_wait_until_def stub_located_rows
        driver_find_elements_def stub_located_no_data)
  have f: "driver_find_elements stub_driver rows_locator s
      = (Inr (map (\<lambda>cs. RowEl (Cells cs)) css), s)"
    using d w e
    by (simp add: bind_def the_driver_def on_world_def stub_ops
        driver_find_elements_def stub_located_rows)
  show ?thesis
    using a f stub_row_loop [of css "[]" s]
    by (simp add: extract_otps_from_table_def)
qed

lemma feed_page_query: "feed_page rs = query_page rs [] []"
  by (simp add: feed_page_def query_page_def)

lemma query_locators:
  "date_from_locator \<noteq> rows_locator" "date_to_locator \<noteq> rows_locator"
  "get_sms_locator \<noteq> rows_locator" "date_from_locator \<noteq> date_to_locator"
  "date_from_locator \<noteq> get_sms_locator" "date_to_locator \<noteq> get_sms_locator"
  "no_data_locator \<notin> set [date_from_locator, date_to_locator, get_sms_locator]"
  by (simp_all add: date_from_locator_def date_to_locator_def get_sms_locator_def
      rows_locator_def no_data_locator_def)


lemma stub_submit:
  assumes d: "driver s = Some h"
    and w: "world s = query_page rs ty oc"
    and c: "stub_click (El get_sms_locator) (query_page rs (set_dates ty a b) oc)
              = (Inr (), query_page rs' (set_dates ty a b) oc)"
  shows "submit_date_range stub_driver a b s
     = (if rs' = [] then Inl (Exn TimeoutException ''Message: '') else Inr (),
        s\<lparr>world := query_page rs' (set_dates ty a b) oc\<rparr>)"
proof -
  have f: "filter (\<lambda>k. fst k \<noteq> date_to_locator)
             (filter (\<lambda>k. fst k \<noteq> date_from_locator) ty @ [(date_from_locator, a)])
           @ [(date_to_locator, b)] = set_dates ty a b"
    using query_locators(4) by (simp add: set_dates_def conj_commute)
  show ?thesis
    using d w query_locators f c [unfolded query_page_def]
    by (cases rs')
      (simp_all add: submit_date_range_def bind_def driver_get_def the_driver_def
        on_world_def stub_ops query_page_def WebDriverWait_until_def stub_wait_until_def
        stub_located_def driver_find_element_def stub_find_element_def ret_def stub_waits
        del: stub_click.simps)
qed


lemma click_fixed:
  "stub_click (El get_sms_locator) (query_page rs ty []) = (Inr (), query_page rs ty [])"
  by (simp add: query_page_def)


lemma stub_query:
  assumes d: "driver s = Some h"
    and w: "world s = query_page rs ty oc"
    and c: "stub_click (El get_sms_locator) (query_page rs (set_dates ty a b) oc)
              = (Inr (), query_page (map Cells css) (set_dates ty a b) oc)"
  shows "get_historical_otps stub_driver a b s
     = (if css = []
        then (Inr [], notified [''Error fetching historical OTPs: Message: '']
                        (s\<lparr>world := query_page (map Cells css) (set_dates ty a b) oc\<rparr>))
        else (Inr (bodies css), notified (replicate (skipped css) skip_notice)
                        (s\<lparr>world := query_page (map Cells css) (set_dates ty a b) oc\<rparr>)))"
proof -
  let ?s = "s\<lparr>world := query_page (map Cells css) (set_dates ty a b) oc\<rparr>"
  have q: "submit_date_range stub_driver a b s
      = (if css = [] then Inl (Exn TimeoutException ''Message: '') else Inr (), ?s)"
    using stub_submit [OF d w c] by simp
  show ?thesis
  proof (cases "css = []")
    case True
    then show ?thesis
      using q
      by (simp add: get_historical_otps_def try_except_def get_historical_otps_try_def
          get_historical_otps_except_def bind_def send_notification_notified ret_def)
  next
    case False
    have x: "extract_otps_from_table stub_driver ?s
        = (Inr (bodies css), notified (replicate (skipped css) skip_notice) ?s)"
    proof (rule stub_extract)
      show "driver ?s = Some h" using d by simp
      show "world ?s = Stub otp_page_url [date_from_locator, date_to_locator, get_sms_locator]
              [get_sms_locator] (map Cells css) (set_dates ty a b) oc"
        by (simp add: query_page_def)
      show "no_data_locator \<notin> set [date_from_locator, date_to_locator, get_sms_locator]"
        by (rule query_locators)
      show "css \<noteq> []" by (rule False)
    qed
    show ?thesis
      using q x False
      by (simp add: get_historical_otps_def try_except_def get_historical_otps_try_def bind_def)
  qed
qed

lemma stub_historical:
  assumes d: "driver s = Some h" and w: "world s = feed_page (map Cells css)"
  shows "fst (get_historical_otps stub_driver a b s) = Inr (bodies css)
    \<and> typed (world (snd (get_historical_otps stub_driver a b s)))
           = [(date_from_locator, a), (date_to_locator, b)]"
  using stub_query [OF d w [unfolded feed_page_query] click_fixed, of a b]
  by (simp add: bodies_def notified_fields query_page_def set_dates_def)

lemma message_cell_length:
  "message_cell cs = (if 3 \<le> length cs then Some (cs ! 2) else None)"
  by (cases cs rule: message_cell.cases) simp_all

lemma bodies_append: "bodies (xs @ ys) = bodies xs @ bodies ys"
  by (simp add: bodies_def)

lemma skipped_append: "skipped (xs @ ys) = skipped xs + skipped ys"
  by (simp add: skipped_def)

lemma bodies_well_formed:
  "list_all (\<lambda>cs. 3 \<le> length cs) css \<Longrightarrow> bodies css = map (\<lambda>cs. strip (cs ! 2)) css"
  by (induction css) (simp_all add: bodies_def message_cell_length)

lemma skipped_well_formed: "list_all (\<lambda>cs. 3 \<le> length cs) css \<Longrightarrow> skipped css = 0"
  by (induction css) (simp_all add: skipped_def message_cell_length)

lemma strip_blank: "list_all isspace t \<Longrightarrow> strip t = []"
proof -
  assume "list_all isspace t"
  then have d: "dropWhile isspace t = []" by (induction t) simp_all
  show ?thesis unfolding strip_def d by simp
qed

lemma new_messages_loop_seen:
  "set otps \<subseteq> sent_otps s \<Longrightarrow> new_messages_loop otps acc s = (Inr acc, s)"
  by (induction otps arbitrary: acc s) simp_all


section \<open>The notifications of the pop-up handler\<close>

lemma same_log_refl: "same_log s s"
  by (simp add: same_log_def)



lemma same_log_notified2:
  "same_log a (notified ms b) \<Longrightarrow> same_log (notified ns a) (notified (ms @ ns) b)"
  by (simp add: same_log_def notified_def)







section \<open>Faults during extraction\<close>








section \<open>The properties of the specification\<close>

text \<open>
  C1. Over any run of \<^verbatim>\<open>fetch_new_otps\<close> calls on one engine, with any browser behaviour, no
  message is returned twice: the returned sequences, laid end to end, have no duplicate
  and share nothing with the set of sent messages the run started from, and the set after
  the run is the set before it together with what was returned. The same holds for each
  single call: its output has no duplicate and the set after it is the set before it
  together with the output.
\<close>

theorem poll_new_never_repeats:
  "(\<exists>outs s'. poll_many drv n s = (Inr outs, s') \<and> length outs = n
       \<and> distinct (concat outs) \<and> set (concat outs) \<inter> sent_otps s = {}
       \<and> sent_otps s' = sent_otps s \<union> set (concat outs))
   \<and> (\<exists>new_otps s1. fetch_new_otps drv s = (Inr new_otps, s1)
       \<and> distinct new_otps \<and> set new_otps \<inter> sent_otps s = {}
       \<and> sent_otps s1 = sent_otps s \<union> set new_otps)"
  using poll_many_spec [of drv n s] fetch_new_otps_spec [of drv s] by blast

text \<open>
  C8. The set of sent messages only grows: after each of the six operations, from any
  state and with any browser behaviour, it contains the set it was before.
\<close>

theorem sent_otps_only_grows:
  "sent_otps s \<subseteq> sent_otps (snd (login drv s))
   \<and> sent_otps s \<subseteq> sent_otps (snd (handle_popup drv s))
   \<and> sent_otps s \<subseteq> sent_otps (snd (navigate_to_otp_page drv s))
   \<and> sent_otps s \<subseteq> sent_otps (snd (fetch_new_otps drv s))
   \<and> sent_otps s \<subseteq> sent_otps (snd (get_historical_otps drv start_date end_date s))
   \<and> sent_otps s \<subseteq> sent_otps (snd (close drv s))"
proof -
  have "sent_otps s \<subseteq> sent_otps (snd (fetch_new_otps drv s))"
    using fetch_new_otps_spec [of drv s] by auto
  then show ?thesis
    using keeps_login [of drv] keeps_handle_popup [of drv] keeps_navigate_to_otp_page [of drv]
      keeps_get_historical_otps [of drv start_date end_date] keeps_close [of drv]
    by (simp add: keeps_sent_def)
qed





text \<open>
  C6. A stub feed of \<open>N + 1\<close> rows, one of which has no third cell while the other \<open>N\<close> have
  one: \<^verbatim>\<open>_extract_otps_from_table\<close> returns normally with exactly the \<open>N\<close> stripped messages
  of the well-formed rows, in page order, and the only notification is the one notice for
  the row it skipped.
\<close>

theorem extraction_skips_malformed_row:
  assumes "driver s = Some h"
    and "world s = feed_page (map Cells (pre @ [bad] @ post))"
    and "list_all (\<lambda>cs. 3 \<le> length cs) (pre @ post)"
    and "length bad < 3"
  shows "extract_otps_from_table stub_driver s
           = (Inr (map (\<lambda>cs. strip (cs ! 2)) (pre @ post)), notified [skip_notice] s)
       \<and> length (map (\<lambda>cs. strip (cs ! 2)) (pre @ post)) = length pre + length post"
proof -
  have n: "no_data_locator \<notin> set [date_from_locator, date_to_locator, get_sms_locator]"
    by (simp add: date_from_locator_def date_to_locator_def get_sms_locator_def
        no_data_locator_def)
  have p: "list_all (\<lambda>cs. 3 \<le> length cs) pre" "list_all (\<lambda>cs. 3 \<le> length cs) post"
    using assms(3) by simp_all
  have b: "bodies (pre @ [bad] @ post) = map (\<lambda>cs. strip (cs ! 2)) (pre @ post)"
    using assms(4) bodies_well_formed [OF p(1)] bodies_well_formed [OF p(2)]
    by (simp add: bodies_append) (simp add: bodies_def message_cell_length)
  have k: "skipped (pre @ [bad] @ post) = 1"
    using assms(4) skipped_well_formed [OF p(1)] skipped_well_formed [OF p(2)]
    by (simp add: skipped_append) (simp add: skipped_def message_cell_length)
  have "extract_otps_from_table stub_driver s
      = (Inr (bodies (pre @ [bad] @ post)),
         notified (replicate (skipped (pre @ [bad] @ post)) skip_notice) s)"
    by (rule stub_extract [OF assms(1) assms(2) [unfolded feed_page_def] n]) simp
  then show ?thesis using b k by simp
qed

theorem extraction_skips_malformed_row_witness:
  "fst (extract_otps_from_table stub_driver (session {} torn_feed))
     = Inr [''Your code is 1111'', ''Your code is 2222'']
   \<and> sink (snd (extract_otps_from_table stub_driver (session {} torn_feed)))
     = [''Could not find message text in a row. Skipping.'']"
proof -
  have d: "driver (session {} torn_feed) = Some 0" by (simp add: session_def)
  have w: "world (session {} torn_feed) = feed_page (map Cells
             ([[''2025-10-05 10:15:00'', ''+15550001'', ''Your code is 1111'']]
                @ [[''Loading...'']]
                @ [[''2025-10-06 09:00:00'', ''+15550001'', '' Your code is 2222 '']]))"
    by (simp add: session_def init_def torn_feed_def)
  have l: "list_all (\<lambda>cs. 3 \<le> length cs)
             ([[''2025-10-05 10:15:00'', ''+15550001'', ''Your code is 1111'']]
                @ [[''2025-10-06 09:00:00'', ''+15550001'', '' Your code is 2222 '']])"
    by simp
  have b: "length [''Loading...''] < 3" by simp
  have "extract_otps_from_table stub_driver (session {} torn_feed)
      = (Inr (map (\<lambda>cs. strip (cs ! 2))
               ([[''2025-10-05 10:15:00'', ''+15550001'', ''Your code is 1111'']]
                @ [[''2025-10-06 09:00:00'', ''+15550001'', '' Your code is 2222 '']])),
         notified [skip_notice] (session {} torn_feed))"
    using extraction_skips_malformed_row [OF d w l b] by blast
  moreover have "map (\<lambda>cs. strip (cs ! 2))
               ([[''2025-10-05 10:15:00'', ''+15550001'', ''Your code is 1111'']]
                @ [[''2025-10-06 09:00:00'', ''+15550001'', '' Your code is 2222 '']])
      = [''Your code is 1111'', ''Your code is 2222'']"
    by code_simp
  moreover have "sink (notified [skip_notice] (session {} torn_feed))
      = [''Could not find message text in a row. Skipping.'']"
    by (simp add: notified_def session_def init_def skip_notice_def)
  ultimately show ?thesis by simp
qed

text \<open>
  C10. \<^verbatim>\<open>get_historical_otps\<close> returns what extraction yields, empty strings included,
  while the loop of \<^verbatim>\<open>fetch_new_otps\<close> drops them: on a stub feed with a row whose message
  cell is there but holds only whitespace, the historical result contains the empty
  string and the result of the poll does not.
\<close>

theorem fetch_range_keeps_blank_record:
  assumes "driver s = Some h"
    and "world s = feed_page (map Cells (pre @ [blank] @ post))"
    and "3 \<le> length blank"
    and "list_all isspace (blank ! 2)"
  shows "(\<exists>r. fst (get_historical_otps stub_driver start_date end_date s) = Inr r \<and> [] \<in> set r)
       \<and> (\<exists>r. fst (fetch_new_otps stub_driver s) = Inr r \<and> [] \<notin> set r)"
proof -
  have "bodies [blank] = [[]]"
    using assms(3) strip_blank [OF assms(4)] by (simp add: bodies_def message_cell_length)
  then have "[] \<in> set (bodies (pre @ [blank] @ post))"
    using bodies_append [of pre "[blank] @ post"] bodies_append [of "[blank]" post] by simp
  then have "\<exists>r. fst (get_historical_otps stub_driver start_date end_date s) = Inr r \<and> [] \<in> set r"
    using stub_historical [OF assms(1,2), of start_date end_date] by simp
  moreover have "\<exists>r. fst (fetch_new_otps stub_driver s) = Inr r \<and> [] \<notin> set r"
    using fetch_new_otps_spec [of stub_driver s] by auto
  ultimately show ?thesis by blast
qed

theorem fetch_range_keeps_blank_record_witness:
  "(\<exists>r. fst (get_historical_otps stub_driver ''2025-10-01'' ''2025-10-19'' (session {} blank_feed))
         = Inr r \<and> [] \<in> set r)
   \<and> fst (fetch_new_otps stub_driver (session {} blank_feed)) = Inr [''Your code is 1111'']"
proof -
  have d: "driver (session {} blank_feed) = Some 0" by (simp add: session_def)
  have w: "world (session {} blank_feed) = feed_page (map Cells
             ([[''2025-10-05 10:15:00'', ''+15550001'', ''Your code is 1111'']]
                @ [[''2025-10-05 10:16:00'', ''+15550001'', ''   '']]
                @ []))"
    by (simp add: session_def init_def blank_feed_def)
  have l: "3 \<le> length [''2025-10-05 10:16:00'', ''+15550001'', ''   '']" by simp
  have b: "list_all isspace ([''2025-10-05 10:16:00'', ''+15550001'', ''   ''] ! 2)"
    by (simp add: isspace_def)
  have "\<exists>r. fst (get_historical_otps stub_driver ''2025-10-01'' ''2025-10-19'' (session {} blank_feed))
         = Inr r \<and> [] \<in> set r"
    using fetch_range_keeps_blank_record [OF d w l b] by blast
  moreover have "fst (fetch_new_otps stub_driver (session {} blank_feed)) = Inr [''Your code is 1111'']"
    by code_simp
  ultimately show ?thesis by blast
qed

text \<open>
  C7. When the navigation to the feed succeeds and extraction yields only messages that
  are already in the set of sent messages (in particular when it yields none),
  \<^verbatim>\<open>fetch_new_otps\<close> returns the empty sequence and the set is what it was, for every
  browser behaviour.
\<close>

theorem poll_on_unchanged_feed:
  assumes "driver_get drv otp_page_url s = (Inr (), s1)"
    and "extract_otps_from_table drv s1 = (Inr current_otps, s2)"
    and "set current_otps \<subseteq> sent_otps s"
  shows "fetch_new_otps drv s = (Inr [], s2) \<and> sent_otps s2 = sent_otps s"
proof -
  have k: "sent_otps s2 = sent_otps s"
    using keeps_sentD [OF keeps_driver_get assms(1)] keeps_sentD [OF keeps_extract assms(2)]
    by simp
  then have "new_messages_loop current_otps [] s2 = (Inr [], s2)"
    using assms(3) by (intro new_messages_loop_seen) simp
  then show ?thesis
    using assms(1,2) k
    by (simp add: fetch_new_otps_def try_except_def fetch_new_otps_try_def bind_def)
qed

theorem poll_on_unchanged_feed_witness:
  "fetch_new_otps stub_driver (session {''Your code is 1111'', ''Your code is 2222''} two_row_feed)
     = (Inr [], session {''Your code is 1111'', ''Your code is 2222''} two_row_feed)
   \<and> fetch_new_otps stub_driver (session {} (feed_page [])) 
     = (Inr [], notified [''Error extracting OTPs from table: Message: ''] (session {} (feed_page [])))"
proof -
  let ?s = "session {''Your code is 1111'', ''Your code is 2222''} two_row_feed"
  have g: "driver_get stub_driver otp_page_url ?s = (Inr (), ?s)"
    by (simp add: driver_get_def bind_def the_driver_def on_world_def stub_ops session_def
        init_def two_row_feed_def feed_page_def)
  have x: "extract_otps_from_table stub_driver ?s
      = (Inr [''Your code is 1111'', ''Your code is 2222''], ?s)"
    by code_simp
  have i: "set [''Your code is 1111'', ''Your code is 2222''] \<subseteq> sent_otps ?s"
    by (simp add: session_def init_def)
  let ?t = "session {} (feed_page [])"
  let ?t' = "notified [''Error extracting OTPs from table: Message: ''] ?t"
  have g': "driver_get stub_driver otp_page_url ?t = (Inr (), ?t)"
    by (simp add: driver_get_def bind_def the_driver_def on_world_def stub_ops session_def
        init_def feed_page_def)
  have x': "extract_otps_from_table stub_driver ?t = (Inr [], ?t')"
    by code_simp
  have i': "set [] \<subseteq> sent_otps ?t" by simp
  show ?thesis
    using poll_on_unchanged_feed [OF g x i] poll_on_unchanged_feed [OF g' x' i'] by blast
qed

text \<open>
  C9. \<^verbatim>\<open>close\<close> always returns normally and leaves no driver handle; without a handle it
  changes nothing; a second \<^verbatim>\<open>close\<close> right after the first changes nothing, so two calls
  leave the state one call leaves.
\<close>

theorem close_idempotent:
  "(driver s = None \<longrightarrow> close drv s = (Inr (), s))
   \<and> fst (close drv s) = Inr ()
   \<and> driver (snd (close drv s)) = None
   \<and> close drv (snd (close drv s)) = (Inr (), snd (close drv s))"
  by (simp add: close_def split: option.split)

theorem close_idempotent_witness:
  "close stub_driver (init ''user@example.com'' ''secret'' True no_modal_page)
     = (Inr (), init ''user@example.com'' ''secret'' True no_modal_page)
   \<and> driver (snd (close stub_driver (session {} no_modal_page))) = None"
proof -
  have "driver (init ''user@example.com'' ''secret'' True no_modal_page) = None"
    by (simp add: init_def)
  then show ?thesis
    using close_idempotent [of "init ''user@example.com'' ''secret'' True no_modal_page" stub_driver]
      close_idempotent [of "session {} no_modal_page" stub_driver]
    by blast
qed

text \<open>
  C3 fails on the code. The argument of the wait after the form is submitted is the Python
  expression \<^verbatim>\<open>EC.url_contains("/portal") or EC.presence_of_element_located(...)\<close>, which
  is its first operand: the wait is for the URL alone. On a portal that shows the sidebar
  menu at an address outside \<^verbatim>\<open>/portal\<close> the wait times out and \<^verbatim>\<open>login\<close> returns False.
\<close>

theorem login_ignores_navigation_marker:
  "login_wait_condition = url_contains ''/portal''
   \<and> stub_holds dashboard_page (presence_of_element_located sidebar_menu_locator)
       = Some (El sidebar_menu_locator)
   \<and> stub_holds dashboard_page (url_contains ''/portal'') = None
   \<and> world (snd (login stub_driver (init ''user@example.com'' ''secret'' True login_page)))
       = dashboard_page
   \<and> fst (login stub_driver (init ''user@example.com'' ''secret'' True login_page)) = Inr False
   \<and> sink (snd (login stub_driver (init ''user@example.com'' ''secret'' True login_page)))
       = [''Login failed: Message: '']"
  by code_simp







end
